theory Spec2Isabelle
  imports Main "HOL-Library.Word"
begin

section \<open>Go values used by \<^verbatim>\<open>do/droplets.go\<close>\<close>

text \<open>
  Go's \<^verbatim>\<open>int\<close> is taken at 64 bits (\<^verbatim>\<open>strconv.IntSize = 64\<close>, the size on the
  platforms the controller manager is built for): a two's-complement word read by
  \<open>sint\<close>. Go strings are byte sequences, as \<open>string\<close> is; \<^verbatim>\<open>==\<close> on them is
  bytewise equality, which is \<open>=\<close> on \<open>string\<close>.
\<close>

type_synonym go_int = "64 word"

type_synonym NodeName = string \<comment> \<open>\<^verbatim>\<open>types.NodeName\<close>: \<^verbatim>\<open>type NodeName string\<close>\<close>

subsection \<open>\<^verbatim>\<open>strconv.Atoi\<close> and \<^verbatim>\<open>strconv.Itoa\<close> (Go standard library)\<close>

text \<open>
  The two conversions belong to Go's standard library, not to this repository. They are
  modelled after the library: \<^verbatim>\<open>Atoi(s)\<close> is \<^verbatim>\<open>ParseInt(s, 10, 0)\<close> (its fast path
  for short inputs computes the same result), which takes one optional sign and then
  \<^verbatim>\<open>ParseUint\<close>'s digit loop; \<^verbatim>\<open>Itoa\<close> prints the signed decimal numeral.
\<close>

datatype strconv_error = ErrSyntax | ErrRange

text \<open>\<^verbatim>\<open>*strconv.NumError\<close>: the input that failed and why (the \<^verbatim>\<open>Func\<close> field is left out).\<close>

datatype NumError = NumError (Num: string) (Err: strconv_error)

definition is_digit :: "char \<Rightarrow> bool" where
  "is_digit c \<longleftrightarrow> (48::int) \<le> of_char c \<and> of_char c \<le> (57::int)"

definition digit_val :: "char \<Rightarrow> int" where
  "digit_val c = of_char c - 48"

definition maxUint64 :: int where
  "maxUint64 = 2 ^ 64 - 1"

text \<open>
  The loop of \<^verbatim>\<open>ParseUint\<close> in base 10 at 64 bits, over the bytes left to read, with the
  number read so far (an unsigned 64-bit number, as an \<open>int\<close> that the checks keep in range). \<^verbatim>\<open>cutoff = maxUint64/10 + 1\<close>; the loop stops at the first byte
  that is no digit, or where the number leaves 64 bits.
\<close>

fun ParseUint_loop :: "int \<Rightarrow> string \<Rightarrow> strconv_error + int" where
  "ParseUint_loop n [] = Inr n"
| "ParseUint_loop n (c # cs) =
     (if \<not> is_digit c then Inl ErrSyntax
      else if n \<ge> maxUint64 div 10 + 1 then Inl ErrRange
      else if n * 10 + digit_val c > maxUint64 then Inl ErrRange
      else ParseUint_loop (n * 10 + digit_val c) cs)"

definition ParseUint :: "string \<Rightarrow> strconv_error + int" where
  "ParseUint s = (if s = [] then Inl ErrSyntax else ParseUint_loop 0 s)"

text \<open>
  \<^verbatim>\<open>ParseInt\<close>: a syntax error of \<^verbatim>\<open>ParseUint\<close> is returned at once; after a range
  error \<^verbatim>\<open>un\<close> is the maximum, which the signed cutoff \<open>2 ^ 63\<close> then rejects.
\<close>

definition ParseInt :: "string \<Rightarrow> strconv_error + int" where
  "ParseInt s0 =
     (if s0 = [] then Inl ErrSyntax
      else
        let neg = (hd s0 = CHR ''-'');
            s = (if hd s0 = CHR ''+'' then tl s0 else if hd s0 = CHR ''-'' then tl s0 else s0)
        in (case ParseUint s of
              Inl ErrSyntax \<Rightarrow> Inl ErrSyntax
            | r \<Rightarrow>
                let un = (case r of Inr n \<Rightarrow> n | Inl _ \<Rightarrow> maxUint64) in
                if \<not> neg \<and> un \<ge> 2 ^ 63 then Inl ErrRange
                else if neg \<and> un > 2 ^ 63 then Inl ErrRange
                else Inr (if neg then - un else un)))"

definition Atoi :: "string \<Rightarrow> NumError + go_int" where
  "Atoi s = (case ParseInt s of Inl e \<Rightarrow> Inl (NumError s e) | Inr n \<Rightarrow> Inr (word_of_int n))"

definition digit_char :: "int \<Rightarrow> char" where
  "digit_char d = char_of (48 + d)"

function decimal :: "int \<Rightarrow> string" where
  "decimal n = (if n < 10 then [digit_char n] else decimal (n div 10) @ [digit_char (n mod 10)])"
  by pat_completeness auto
termination
  by (relation "measure nat") auto

definition Itoa :: "go_int \<Rightarrow> string" where
  "Itoa i = (if sint i < 0 then CHR ''-'' # decimal (- sint i) else decimal (sint i))"

subsection \<open>The records of the cloud API client (package \<^verbatim>\<open>godo\<close>)\<close>

text \<open>
  Of \<^verbatim>\<open>godo.Droplet\<close> the fields this file reads: \<^verbatim>\<open>ID\<close>, \<^verbatim>\<open>Name\<close>,
  \<^verbatim>\<open>SizeSlug\<close>, and \<^verbatim>\<open>Networks\<close>, a pointer that may be nil, to the list of IPv4
  interfaces, each tagged by its \<^verbatim>\<open>Type\<close> (\<^verbatim>\<open>"public"\<close> or \<^verbatim>\<open>"private"\<close>).
\<close>

record NetworkV4 =
  IPAddress :: string
  Netmask :: string
  Gateway :: string
  Type :: string

record Networks =
  V4 :: "NetworkV4 list"

record Droplet =
  ID :: go_int
  Name :: string
  SizeSlug :: string
  Networks :: "Networks option"

datatype godo_error = errNoNetworks \<comment> \<open>\<^verbatim>\<open>errors.New("no networks have been defined")\<close>\<close>

text \<open>
  Modelled from the spec: \<^verbatim>\<open>Droplet.PrivateIPv4\<close> and \<^verbatim>\<open>Droplet.PublicIPv4\<close> are methods
  of the client library, whose source is not in this repository. The spec's data model
  gives a record a list of network interfaces, each tagged public or private with an IPv4
  address, and lets an address be absent or empty. As the library documents them, the
  methods return the address of the first interface with the tag, the empty string when
  there is none, and the empty string with an error when the record has no networks at
  all. The result is Go's pair \<^verbatim>\<open>(string, error)\<close>, \<open>None\<close> for a nil error.
\<close>

fun firstV4 :: "string \<Rightarrow> NetworkV4 list \<Rightarrow> string \<times> godo_error option" where
  "firstV4 tag [] = ([], None)"
| "firstV4 tag (v4 # rest) = (if Type v4 = tag then (IPAddress v4, None) else firstV4 tag rest)"

definition PublicIPv4 :: "Droplet \<Rightarrow> string \<times> godo_error option" where
  "PublicIPv4 d =
     (case Networks d of
        None \<Rightarrow> ([], Some errNoNetworks)
      | Some ns \<Rightarrow> firstV4 ''public'' (V4 ns))"

definition PrivateIPv4 :: "Droplet \<Rightarrow> string \<times> godo_error option" where
  "PrivateIPv4 d =
     (case Networks d of
        None \<Rightarrow> ([], Some errNoNetworks)
      | Some ns \<Rightarrow> firstV4 ''private'' (V4 ns))"

subsection \<open>Errors\<close>

text \<open>
  One constructor for every place where the file makes or passes on an error, carrying
  the values formatted into the message. A runtime panic (a nil pointer dereferenced) is
  not an error value in Go: the call does not return; it is \<open>NilDereference\<close> here, so
  that the model has a branch for it.
\<close>

type_synonym ext_error = string \<comment> \<open>an error of a collaborator, by its message\<close>

datatype error =
    InstanceNotFound
      \<comment> \<open>\<^verbatim>\<open>cloudprovider.InstanceNotFound\<close>\<close>
  | NotImplementedYet
      \<comment> \<open>\<^verbatim>\<open>errors.New("not implemented yet")\<close>\<close>
  | ErrConvertingDropletId NumError
      \<comment> \<open>\<^verbatim>\<open>fmt.Errorf("error converting droplet id to string: %v", err)\<close>\<close>
  | ErrAPIStatus go_int
      \<comment> \<open>\<^verbatim>\<open>fmt.Errorf("DO API returned non-200 status code: %d", resp.StatusCode)\<close>\<close>
  | ErrMetadataStatus go_int
      \<comment> \<open>\<^verbatim>\<open>fmt.Errorf("droplet metadata returned non-200 status code: %d", resp.StatusCode)\<close>\<close>
  | ErrPrivateIP "godo_error option"
      \<comment> \<open>\<^verbatim>\<open>fmt.Errorf("could not get private ip: %v", err)\<close>, \<open>None\<close> for a nil \<^verbatim>\<open>err\<close>\<close>
  | ErrPublicIP "godo_error option"
      \<comment> \<open>\<^verbatim>\<open>fmt.Errorf("could not get public ip: %v", err)\<close>\<close>
  | ClientError ext_error
      \<comment> \<open>the \<^verbatim>\<open>err\<close> of \<^verbatim>\<open>client.Droplets.Get\<close> or \<^verbatim>\<open>List\<close>, returned as it is\<close>
  | TransportError ext_error
      \<comment> \<open>the \<^verbatim>\<open>err\<close> of \<^verbatim>\<open>http.Get\<close> or \<^verbatim>\<open>ioutil.ReadAll\<close>, returned as it is\<close>
  | NilDereference
      \<comment> \<open>runtime panic: a nil \<^verbatim>\<open>resp\<close> or \<^verbatim>\<open>droplet\<close> is dereferenced\<close>

subsection \<open>The collaborators and the calls made to them\<close>

text \<open>
  \<^verbatim>\<open>http.Response\<close> (which \<^verbatim>\<open>godo.Response\<close> embeds): the status code, and what
  \<^verbatim>\<open>ioutil.ReadAll(resp.Body)\<close> gives, the bytes or an error.
\<close>

record Response =
  StatusCode :: go_int
  Body :: "ext_error + string"

record ListOptions =
  Page :: go_int
  PerPage :: go_int

text \<open>
  \<^verbatim>\<open>client.Droplets\<close>: what \<^verbatim>\<open>Get(ctx, id)\<close> and \<^verbatim>\<open>List(ctx, opt)\<close> answer. Pointers
  (\<^verbatim>\<open>*godo.Droplet\<close>, \<^verbatim>\<open>*godo.Response\<close>) and \<^verbatim>\<open>error\<close> may be nil: \<open>None\<close>. The
  context argument is always \<^verbatim>\<open>context.TODO()\<close> and is left out. An operation of this
  file calls each collaborator at most once, so a function from the argument to the
  answer describes any behaviour of the collaborator during the operation.
\<close>

record Client =
  Droplets_Get :: "go_int \<Rightarrow> Droplet option \<times> Response option \<times> ext_error option"
  Droplets_List :: "ListOptions \<Rightarrow> Droplet list \<times> Response option \<times> ext_error option"

record instances =
  client :: Client

definition newInstances :: "Client \<Rightarrow> instances" where
  "newInstances c = \<lparr>client = c\<rparr>"

text \<open>\<^verbatim>\<open>http.Get\<close> of package \<^verbatim>\<open>net/http\<close>: the answer to a GET of a URL.\<close>

type_synonym http = "string \<Rightarrow> Response option \<times> ext_error option"

text \<open>
  The state threaded through every operation is the list of calls made to the
  collaborators so far, oldest first: an operation that returns the list it was given has
  made no call.
\<close>

datatype call =
    Call_Droplets_Get go_int
  | Call_Droplets_List ListOptions
  | Call_http_Get string

type_synonym calls = "call list"

definition do_Droplets_Get ::
  "instances \<Rightarrow> go_int \<Rightarrow> calls \<Rightarrow> (Droplet option \<times> Response option \<times> ext_error option) \<times> calls" where
  "do_Droplets_Get i intId cs = (Droplets_Get (client i) intId, cs @ [Call_Droplets_Get intId])"

definition do_Droplets_List ::
  "instances \<Rightarrow> ListOptions \<Rightarrow> calls \<Rightarrow> (Droplet list \<times> Response option \<times> ext_error option) \<times> calls" where
  "do_Droplets_List i opt cs = (Droplets_List (client i) opt, cs @ [Call_Droplets_List opt])"

definition do_http_Get ::
  "http \<Rightarrow> string \<Rightarrow> calls \<Rightarrow> (Response option \<times> ext_error option) \<times> calls" where
  "do_http_Get net url cs = (net url, cs @ [Call_http_Get url])"

definition StatusOK :: go_int where
  "StatusOK = 200"

section \<open>The instance resolver (\<^verbatim>\<open>do/droplets.go\<close>)\<close>

definition dropletIDMetadataURL :: string where
  "dropletIDMetadataURL = ''http://169.254.169.254/metadata/v1/id''"

subsection \<open>The two lookups\<close>

text \<open>
  \<^verbatim>\<open>dropletById\<close>: the id is parsed first; only then is the client asked. The pointer
  the client returned is passed on as it is, nil or not.
\<close>

definition dropletById :: "instances \<Rightarrow> string \<Rightarrow> calls \<Rightarrow> (error + Droplet option) \<times> calls" where
  "dropletById i id' cs =
     (case Atoi id' of
        Inl err \<Rightarrow> (Inl (ErrConvertingDropletId err), cs)
      | Inr intId \<Rightarrow>
          (case do_Droplets_Get i intId cs of
             ((droplet, resp, err), cs') \<Rightarrow>
               (case err of
                  Some e \<Rightarrow> (Inl (ClientError e), cs')
                | None \<Rightarrow>
                    (case resp of
                       None \<Rightarrow> (Inl NilDereference, cs')
                     | Some r \<Rightarrow>
                         if StatusCode r \<noteq> StatusOK then (Inl (ErrAPIStatus (StatusCode r)), cs')
                         else (Inr droplet, cs')))))"

text \<open>The loop of \<^verbatim>\<open>dropletByName\<close> over the listed droplets, in list order.\<close>

fun scanByName :: "NodeName \<Rightarrow> Droplet list \<Rightarrow> error + Droplet" where
  "scanByName nodeName [] = Inl InstanceNotFound"
| "scanByName nodeName (droplet # droplets) =
     (if Name droplet = nodeName then Inr droplet else scanByName nodeName droplets)"

definition dropletByName :: "instances \<Rightarrow> NodeName \<Rightarrow> calls \<Rightarrow> (error + Droplet) \<times> calls" where
  "dropletByName i nodeName cs =
     (case do_Droplets_List i \<lparr>Page = 0, PerPage = 0\<rparr> cs of
        ((droplets, resp, err), cs') \<Rightarrow>
          (case err of
             Some e \<Rightarrow> (Inl (ClientError e), cs')
           | None \<Rightarrow>
               (case resp of
                  None \<Rightarrow> (Inl NilDereference, cs')
                | Some r \<Rightarrow>
                    if StatusCode r \<noteq> StatusOK then (Inl (ErrAPIStatus (StatusCode r)), cs')
                    else (scanByName nodeName droplets, cs'))))"

subsection \<open>The metadata fetcher\<close>

definition httpGet :: "http \<Rightarrow> string \<Rightarrow> calls \<Rightarrow> (error + string) \<times> calls" where
  "httpGet net url cs =
     (case do_http_Get net url cs of
        ((resp, err), cs') \<Rightarrow>
          (case err of
             Some e \<Rightarrow> (Inl (TransportError e), cs')
           | None \<Rightarrow>
               (case resp of
                  None \<Rightarrow> (Inl NilDereference, cs')
                | Some r \<Rightarrow>
                    if StatusCode r \<noteq> StatusOK then (Inl (ErrMetadataStatus (StatusCode r)), cs')
                    else (case Body r of
                            Inl e \<Rightarrow> (Inl (TransportError e), cs')
                          | Inr bodyBytes \<Rightarrow> (Inr bodyBytes, cs')))))"

definition dropletID :: "http \<Rightarrow> calls \<Rightarrow> (error + string) \<times> calls" where
  "dropletID net cs = httpGet net dropletIDMetadataURL cs"

subsection \<open>The operations of \<^verbatim>\<open>cloudprovider.Instances\<close>\<close>

datatype NodeAddressType = NodeHostName | NodeInternalIP | NodeExternalIP

datatype NodeAddress = NodeAddress (AddressType: NodeAddressType) (Address: string)

definition NodeAddressesByProviderID ::
  "instances \<Rightarrow> string \<Rightarrow> calls \<Rightarrow> (error + NodeAddress list) \<times> calls" where
  "NodeAddressesByProviderID i providerId cs =
     (case dropletById i providerId cs of
        (Inl err, cs') \<Rightarrow> (Inl err, cs')
      | (Inr None, cs') \<Rightarrow> (Inl NilDereference, cs')
      | (Inr (Some droplet), cs') \<Rightarrow>
          let addresses = [] @ [NodeAddress NodeHostName (Name droplet)] in
          (case PrivateIPv4 droplet of
             (privateIP, err) \<Rightarrow>
               if err \<noteq> None \<or> privateIP = [] then (Inl (ErrPrivateIP err), cs')
               else
                 let addresses = addresses @ [NodeAddress NodeInternalIP privateIP] in
                 (case PublicIPv4 droplet of
                    (publicIP, err) \<Rightarrow>
                      if err \<noteq> None \<or> publicIP = [] then (Inl (ErrPublicIP err), cs')
                      else
                        let addresses = addresses @ [NodeAddress NodeExternalIP publicIP]
                        in (Inr addresses, cs'))))"

definition NodeAddresses ::
  "http \<Rightarrow> instances \<Rightarrow> NodeName \<Rightarrow> calls \<Rightarrow> (error + NodeAddress list) \<times> calls" where
  "NodeAddresses net i name cs =
     (case dropletID net cs of
        (Inl err, cs') \<Rightarrow> (Inl err, cs')
      | (Inr selfDropletID, cs') \<Rightarrow> NodeAddressesByProviderID i selfDropletID cs')"

definition InstanceID :: "instances \<Rightarrow> NodeName \<Rightarrow> calls \<Rightarrow> (error + string) \<times> calls" where
  "InstanceID i nodeName cs =
     (case dropletByName i nodeName cs of
        (Inl err, cs') \<Rightarrow> (Inl err, cs')
      | (Inr droplet, cs') \<Rightarrow> (Inr (Itoa (ID droplet)), cs'))"

definition ExternalID :: "instances \<Rightarrow> NodeName \<Rightarrow> calls \<Rightarrow> (error + string) \<times> calls" where
  "ExternalID i nodeName cs = InstanceID i nodeName cs"

definition InstanceType :: "instances \<Rightarrow> NodeName \<Rightarrow> calls \<Rightarrow> (error + string) \<times> calls" where
  "InstanceType i name cs =
     (case dropletByName i name cs of
        (Inl err, cs') \<Rightarrow> (Inl err, cs')
      | (Inr droplet, cs') \<Rightarrow> (Inr (SizeSlug droplet), cs'))"

definition InstanceTypeByProviderID ::
  "instances \<Rightarrow> string \<Rightarrow> calls \<Rightarrow> (error + string) \<times> calls" where
  "InstanceTypeByProviderID i providerId cs =
     (case dropletById i providerId cs of
        (Inl err, cs') \<Rightarrow> (Inl err, cs')
      | (Inr None, cs') \<Rightarrow> (Inl NilDereference, cs')
      | (Inr (Some droplet), cs') \<Rightarrow> (Inr (SizeSlug droplet), cs'))"

definition AddSSHKeyToAllInstances ::
  "instances \<Rightarrow> string \<Rightarrow> 8 word list \<Rightarrow> calls \<Rightarrow> error option \<times> calls" where
  "AddSSHKeyToAllInstances i user keyData cs = (Some NotImplementedYet, cs)"

definition CurrentNodeName :: "instances \<Rightarrow> string \<Rightarrow> calls \<Rightarrow> (error + NodeName) \<times> calls" where
  "CurrentNodeName i hostname cs = (Inr hostname, cs)"

section \<open>Example records and collaborators\<close>

text \<open>
  The record of the spec's example (name \<open>node-a\<close>, private address \<open>10.0.0.5\<close>, public
  address \<open>203.0.113.9\<close>), a second record of the same name, one whose name differs from
  it in case only, one with no networks, and one with a private interface only.
\<close>

definition private_v4 :: "string \<Rightarrow> NetworkV4" where
  "private_v4 ip =
     \<lparr>IPAddress = ip, Netmask = ''255.255.0.0'', Gateway = ''10.0.0.1'', Type = ''private''\<rparr>"

definition public_v4 :: "string \<Rightarrow> NetworkV4" where
  "public_v4 ip =
     \<lparr>IPAddress = ip, Netmask = ''255.255.255.0'', Gateway = ''203.0.113.1'', Type = ''public''\<rparr>"

definition node_a :: Droplet where
  "node_a =
     \<lparr>ID = 11, Name = ''node-a'', SizeSlug = ''512mb'',
      Networks = Some \<lparr>V4 = [private_v4 ''10.0.0.5'', public_v4 ''203.0.113.9'']\<rparr>\<rparr>"

definition node_a_again :: Droplet where
  "node_a_again =
     \<lparr>ID = 12, Name = ''node-a'', SizeSlug = ''1gb'',
      Networks = Some \<lparr>V4 = [public_v4 ''203.0.113.10'', private_v4 ''10.0.0.6'']\<rparr>\<rparr>"

definition node_A_upper :: Droplet where
  "node_A_upper =
     \<lparr>ID = 10, Name = ''Node-A'', SizeSlug = ''2gb'',
      Networks = Some \<lparr>V4 = [private_v4 ''10.0.0.4'', public_v4 ''203.0.113.8'']\<rparr>\<rparr>"

definition node_bare :: Droplet where
  "node_bare = \<lparr>ID = 13, Name = ''node-bare'', SizeSlug = ''512mb'', Networks = None\<rparr>"

definition node_private_only :: Droplet where
  "node_private_only =
     \<lparr>ID = 14, Name = ''node-private'', SizeSlug = ''512mb'',
      Networks = Some \<lparr>V4 = [private_v4 ''10.0.0.7'']\<rparr>\<rparr>"

definition ok_response :: Response where
  "ok_response = \<lparr>StatusCode = 200, Body = Inr []\<rparr>"

definition not_found_response :: Response where
  "not_found_response = \<lparr>StatusCode = 404, Body = Inr []\<rparr>"

text \<open>A client that knows the five records, and one whose account has no droplet.\<close>

definition example_client :: Client where
  "example_client =
     \<lparr>Droplets_Get = (\<lambda>n.
        if n = 11 then (Some node_a, Some ok_response, None)
        else if n = 13 then (Some node_bare, Some ok_response, None)
        else if n = 14 then (Some node_private_only, Some ok_response, None)
        else (None, Some not_found_response, Some ''404 The resource you were accessing could not be found.'')),
      Droplets_List = (\<lambda>opt.
        ([node_A_upper, node_a, node_a_again, node_bare, node_private_only],
         Some ok_response, None))\<rparr>"

definition empty_client :: Client where
  "empty_client =
     \<lparr>Droplets_Get = (\<lambda>n.
        (None, Some not_found_response, Some ''404 The resource you were accessing could not be found.'')),
      Droplets_List = (\<lambda>opt. ([], Some ok_response, None))\<rparr>"

text \<open>A metadata endpoint that answers the id 11, and nothing at any other URL.\<close>

definition example_http :: http where
  "example_http url =
     (if url = dropletIDMetadataURL then (Some \<lparr>StatusCode = 200, Body = Inr ''11''\<rparr>, None)
      else (None, Some ''no route to host''))"

text \<open>A metadata endpoint that answers the id 13, of the record with no networks.\<close>

definition bare_http :: http where
  "bare_http url =
     (if url = dropletIDMetadataURL then (Some \<lparr>StatusCode = 200, Body = Inr ''13''\<rparr>, None)
      else (None, Some ''no route to host''))"

section \<open>Facts about the lookups\<close>

lemma firstV4_no_error: "snd (firstV4 tag ns) = None"
  by (induction ns) auto

lemma PrivateIPv4_nonempty: "fst (PrivateIPv4 d) \<noteq> [] \<Longrightarrow> snd (PrivateIPv4 d) = None"
  by (simp add: PrivateIPv4_def firstV4_no_error split: option.splits)

lemma PublicIPv4_nonempty: "fst (PublicIPv4 d) \<noteq> [] \<Longrightarrow> snd (PublicIPv4 d) = None"
  by (simp add: PublicIPv4_def firstV4_no_error split: option.splits)

lemma dropletById_unparsed:
  "Atoi pid = Inl e \<Longrightarrow> dropletById i pid cs = (Inl (ErrConvertingDropletId e), cs)"
  by (simp add: dropletById_def)

text \<open>What \<^verbatim>\<open>NodeAddressesByProviderID\<close> does with each outcome of the lookup.\<close>

lemma NodeAddressesByProviderID_error:
  "dropletById i pid cs = (Inl e, cs') \<Longrightarrow> NodeAddressesByProviderID i pid cs = (Inl e, cs')"
  by (simp add: NodeAddressesByProviderID_def)

lemma NodeAddressesByProviderID_nil:
  "dropletById i pid cs = (Inr None, cs') \<Longrightarrow>
   NodeAddressesByProviderID i pid cs = (Inl NilDereference, cs')"
  by (simp add: NodeAddressesByProviderID_def)

lemma NodeAddressesByProviderID_record:
  "dropletById i pid cs = (Inr (Some d), cs') \<Longrightarrow>
   NodeAddressesByProviderID i pid cs =
     (if snd (PrivateIPv4 d) \<noteq> None \<or> fst (PrivateIPv4 d) = []
        then Inl (ErrPrivateIP (snd (PrivateIPv4 d)))
      else if snd (PublicIPv4 d) \<noteq> None \<or> fst (PublicIPv4 d) = []
        then Inl (ErrPublicIP (snd (PublicIPv4 d)))
      else Inr [NodeAddress NodeHostName (Name d),
                NodeAddress NodeInternalIP (fst (PrivateIPv4 d)),
                NodeAddress NodeExternalIP (fst (PublicIPv4 d))],
      cs')"
  by (simp add: NodeAddressesByProviderID_def split: prod.splits)

lemma dropletById_cases:
  obtains (failed) e cs' where "dropletById i pid cs = (Inl e, cs')"
  | (nil_pointer) cs' where "dropletById i pid cs = (Inr None, cs')"
  | (found) d cs' where "dropletById i pid cs = (Inr (Some d), cs')"
proof (cases "dropletById i pid cs")
  case (Pair r cs')
  show ?thesis
  proof (cases r)
    case (Inl e)
    with Pair failed show ?thesis by simp
  next
    case (Inr p)
    with Pair nil_pointer found show ?thesis by (cases p) simp_all
  qed
qed

text \<open>The scan returns the first droplet of the name, and fails when there is none.\<close>

lemma scanByName_first:
  "\<forall>x \<in> set pre. Name x \<noteq> n \<Longrightarrow> Name d = n \<Longrightarrow> scanByName n (pre @ d # post) = Inr d"
  by (induction pre) auto

lemma scanByName_none:
  "\<forall>x \<in> set ds. Name x \<noteq> n \<Longrightarrow> scanByName n ds = Inl InstanceNotFound"
  by (induction ds) auto

lemma dropletByName_listed:
  "Droplets_List (client i) \<lparr>Page = 0, PerPage = 0\<rparr> = (ds, Some r, None) \<Longrightarrow>
   StatusCode r = 200 \<Longrightarrow>
   dropletByName i n cs = (scanByName n ds, cs @ [Call_Droplets_List \<lparr>Page = 0, PerPage = 0\<rparr>])"
  by (simp add: dropletByName_def do_Droplets_List_def StatusOK_def)

text \<open>The example collaborators, evaluated.\<close>

lemma example_list:
  "Droplets_List (client (newInstances example_client)) \<lparr>Page = 0, PerPage = 0\<rparr> =
     ([node_A_upper, node_a, node_a_again, node_bare, node_private_only], Some ok_response, None)"
  by (simp add: newInstances_def example_client_def)

lemma empty_list:
  "Droplets_List (client (newInstances empty_client)) \<lparr>Page = 0, PerPage = 0\<rparr> =
     ([], Some ok_response, None)"
  by (simp add: newInstances_def empty_client_def)

lemma ok_response_status: "StatusCode ok_response = 200"
  by (simp add: ok_response_def)

lemma example_get_11:
  "fst (dropletById (newInstances example_client) ''11'' []) = Inr (Some node_a)"
  by code_simp

lemma example_get_13:
  "fst (dropletById (newInstances example_client) ''13'' []) = Inr (Some node_bare)"
  by code_simp

lemma example_get_14:
  "fst (dropletById (newInstances example_client) ''14'' []) = Inr (Some node_private_only)"
  by code_simp

lemma node_a_addresses:
  "PrivateIPv4 node_a = (''10.0.0.5'', None)" "PublicIPv4 node_a = (''203.0.113.9'', None)"
  by (simp_all add: PrivateIPv4_def PublicIPv4_def node_a_def private_v4_def public_v4_def)

lemma node_bare_addresses:
  "PrivateIPv4 node_bare = ([], Some errNoNetworks)" "PublicIPv4 node_bare = ([], Some errNoNetworks)"
  by (simp_all add: PrivateIPv4_def PublicIPv4_def node_bare_def)

lemma node_private_only_addresses:
  "PrivateIPv4 node_private_only = (''10.0.0.7'', None)" "PublicIPv4 node_private_only = ([], None)"
  by (simp_all add: PrivateIPv4_def PublicIPv4_def node_private_only_def private_v4_def)

lemma Atoi_abc: "Atoi ''abc'' = Inl (NumError ''abc'' ErrSyntax)"
  by (simp add: Atoi_def ParseInt_def ParseUint_def is_digit_def)

text \<open>
  When the address resolution succeeds: exactly on a record with both addresses; and
  \<^verbatim>\<open>NodeAddresses\<close> is the resolution for the id that the metadata endpoint gave.
\<close>

lemma NodeAddressesByProviderID_succeeds_iff:
  "(\<exists>addresses. fst (NodeAddressesByProviderID i providerId cs) = Inr addresses) \<longleftrightarrow>
   (\<exists>droplet. fst (dropletById i providerId cs) = Inr (Some droplet) \<and>
      fst (PrivateIPv4 droplet) \<noteq> [] \<and> fst (PublicIPv4 droplet) \<noteq> [])"
proof (cases i providerId cs rule: dropletById_cases)
  case (failed e cs')
  then show ?thesis by (simp add: NodeAddressesByProviderID_error)
next
  case (nil_pointer cs')
  then show ?thesis by (simp add: NodeAddressesByProviderID_nil)
next
  case (found d cs')
  have "(\<exists>addresses. fst (NodeAddressesByProviderID i providerId cs) = Inr addresses) \<longleftrightarrow>
      fst (PrivateIPv4 d) \<noteq> [] \<and> fst (PublicIPv4 d) \<noteq> []"
  proof (cases "fst (PrivateIPv4 d) = [] \<or> fst (PublicIPv4 d) = []")
    case True
    with found show ?thesis
      by (auto simp add: NodeAddressesByProviderID_record)
  next
    case False
    then have "snd (PrivateIPv4 d) = None" and "snd (PublicIPv4 d) = None"
      by (simp_all add: PrivateIPv4_nonempty PublicIPv4_nonempty)
    with False found show ?thesis
      by (simp add: NodeAddressesByProviderID_record)
  qed
  with found show ?thesis by simp
qed

lemma NodeAddresses_no_id:
  "dropletID net cs = (Inl e, cs') \<Longrightarrow> NodeAddresses net i name cs = (Inl e, cs')"
  by (simp add: NodeAddresses_def)

lemma NodeAddresses_own_id:
  "dropletID net cs = (Inr selfDropletID, cs') \<Longrightarrow>
   NodeAddresses net i name cs = NodeAddressesByProviderID i selfDropletID cs'"
  by (simp add: NodeAddresses_def)

lemma NodeAddresses_succeeds_iff:
  "(\<exists>addresses. fst (NodeAddresses net i name cs) = Inr addresses) \<longleftrightarrow>
   (\<exists>selfDropletID cs' droplet.
      dropletID net cs = (Inr selfDropletID, cs') \<and>
      fst (dropletById i selfDropletID cs') = Inr (Some droplet) \<and>
      fst (PrivateIPv4 droplet) \<noteq> [] \<and> fst (PublicIPv4 droplet) \<noteq> [])"
proof (cases "dropletID net cs")
  case (Pair r cs')
  show ?thesis
  proof (cases r)
    case (Inl e)
    with Pair show ?thesis by (simp add: NodeAddresses_no_id)
  next
    case (Inr selfDropletID)
    with Pair have "NodeAddresses net i name cs = NodeAddressesByProviderID i selfDropletID cs'"
      by (simp add: NodeAddresses_own_id)
    with Pair Inr show ?thesis
      by (simp add: NodeAddressesByProviderID_succeeds_iff)
  qed
qed

text \<open>What the two lookups return when the client answers with success.\<close>

lemma dropletById_got:
  "Atoi pid = Inr n \<Longrightarrow> Droplets_Get (client i) n = (Some d, Some r, None) \<Longrightarrow>
   StatusCode r = 200 \<Longrightarrow>
   dropletById i pid cs = (Inr (Some d), cs @ [Call_Droplets_Get n])"
  by (simp add: dropletById_def do_Droplets_Get_def StatusOK_def)

lemma dropletByName_first:
  "Droplets_List (client i) \<lparr>Page = 0, PerPage = 0\<rparr> = (pre @ d # post, Some r, None) \<Longrightarrow>
   StatusCode r = 200 \<Longrightarrow> Name d = n \<Longrightarrow> \<forall>x \<in> set pre. Name x \<noteq> n \<Longrightarrow>
   dropletByName i n cs = (Inr d, cs @ [Call_Droplets_List \<lparr>Page = 0, PerPage = 0\<rparr>])"
  by (simp add: dropletByName_listed scanByName_first)

lemma Atoi_13: "Atoi ''13'' = Inr 13"
  by (simp add: Atoi_def ParseInt_def ParseUint_def is_digit_def digit_val_def maxUint64_def)

lemma example_get_answer_13:
  "Droplets_Get (client (newInstances example_client)) 13 = (Some node_bare, Some ok_response, None)"
  by (simp add: newInstances_def example_client_def)

lemma example_list_split:
  "Droplets_List (client (newInstances example_client)) \<lparr>Page = 0, PerPage = 0\<rparr> =
     ([node_A_upper, node_a, node_a_again] @ node_bare # [node_private_only], Some ok_response, None)"
  by (simp add: newInstances_def example_client_def)

lemma example_metadata:
  "dropletID example_http [] = (Inr ''11'', [Call_http_Get dropletIDMetadataURL])"
  "dropletID bare_http [] = (Inr ''13'', [Call_http_Get dropletIDMetadataURL])"
  by (simp_all add: dropletID_def httpGet_def do_http_Get_def example_http_def bare_http_def
      StatusOK_def)

section \<open>The claims\<close>

subsection \<open>C5: \<^verbatim>\<open>ExternalID\<close> is \<^verbatim>\<open>InstanceID\<close>\<close>

text \<open>
  C5. For every node name, every behaviour of the cloud API client and every history of
  calls, \<^verbatim>\<open>ExternalID\<close> and \<^verbatim>\<open>InstanceID\<close> give the same result, the same value on
  success and the same error on failure, and make the same calls: the one calls the other
  and returns what it returns.
\<close>

theorem ExternalID_is_InstanceID:
  "ExternalID i nodeName cs = InstanceID i nodeName cs"
  by (simp add: ExternalID_def)

theorem ExternalID_is_InstanceID_witness:
  "fst (ExternalID (newInstances example_client) ''node-a'' []) = Inr ''11'' \<and>
   fst (ExternalID (newInstances empty_client) ''node-a'' []) = Inl InstanceNotFound"
proof -
  have found: "fst (InstanceID (newInstances example_client) ''node-a'' []) = Inr ''11''"
    by code_simp
  have missing: "fst (InstanceID (newInstances empty_client) ''node-a'' []) = Inl InstanceNotFound"
    by code_simp
  show ?thesis
    using found missing
      ExternalID_is_InstanceID [of "newInstances example_client" "''node-a''" "[]"]
      ExternalID_is_InstanceID [of "newInstances empty_client" "''node-a''" "[]"]
    by simp
qed

subsection \<open>C7: \<^verbatim>\<open>CurrentNodeName\<close> is the identity\<close>

text \<open>
  C7. For every input string, the empty string too, \<^verbatim>\<open>CurrentNodeName(hostname)\<close>
  returns that hostname unchanged as the node name, with no error, and calls no
  collaborator: the list of calls made is the one it was given.
\<close>

theorem CurrentNodeName_identity:
  "CurrentNodeName i hostname cs = (Inr hostname, cs)"
  by (simp add: CurrentNodeName_def)

theorem CurrentNodeName_identity_witness:
  "CurrentNodeName (newInstances example_client) ''host1'' [] = (Inr ''host1'', []) \<and>
   CurrentNodeName (newInstances example_client) [] [] = (Inr [], [])"
  using CurrentNodeName_identity [of "newInstances example_client" "''host1''" "[]"]
    CurrentNodeName_identity [of "newInstances example_client" "[]" "[]"]
  by simp

subsection \<open>C8: \<^verbatim>\<open>AddSSHKeyToAllInstances\<close> is not implemented\<close>

text \<open>
  C8. For every user string and every sequence of key bytes, \<^verbatim>\<open>AddSSHKeyToAllInstances\<close>
  returns the error \<^verbatim>\<open>"not implemented yet"\<close> (the spec's \<open>NotImplemented\<close>), whatever its
  arguments, and calls no collaborator.
\<close>

theorem AddSSHKeyToAllInstances_fails:
  "AddSSHKeyToAllInstances i user keyData cs = (Some NotImplementedYet, cs)"
  by (simp add: AddSSHKeyToAllInstances_def)

theorem AddSSHKeyToAllInstances_fails_witness:
  "AddSSHKeyToAllInstances (newInstances example_client) ''root'' [115, 115, 104] [] =
     (Some NotImplementedYet, []) \<and>
   AddSSHKeyToAllInstances (newInstances empty_client) [] [] [] = (Some NotImplementedYet, [])"
  using AddSSHKeyToAllInstances_fails [of "newInstances example_client" "''root''" "[115, 115, 104]" "[]"]
    AddSSHKeyToAllInstances_fails [of "newInstances empty_client" "[]" "[]" "[]"]
  by simp

subsection \<open>C9: \<^verbatim>\<open>NodeAddresses\<close> ignores the node name\<close>

text \<open>
  C9. For any two node names, with the same metadata endpoint, the same cloud API client
  and the same history of calls, \<^verbatim>\<open>NodeAddresses\<close> returns the same result and makes the
  same calls: the name is not read, the instance's own id comes from the metadata
  endpoint.
\<close>

theorem NodeAddresses_ignores_name:
  "NodeAddresses net i name1 cs = NodeAddresses net i name2 cs"
  by (simp add: NodeAddresses_def)

theorem NodeAddresses_ignores_name_witness:
  "NodeAddresses example_http (newInstances example_client) ''node-bare'' [] =
     (Inr [NodeAddress NodeHostName ''node-a'',
           NodeAddress NodeInternalIP ''10.0.0.5'',
           NodeAddress NodeExternalIP ''203.0.113.9''],
      [Call_http_Get dropletIDMetadataURL, Call_Droplets_Get 11])"
proof -
  have "NodeAddresses example_http (newInstances example_client) ''node-a'' [] =
     (Inr [NodeAddress NodeHostName ''node-a'',
           NodeAddress NodeInternalIP ''10.0.0.5'',
           NodeAddress NodeExternalIP ''203.0.113.9''],
      [Call_http_Get dropletIDMetadataURL, Call_Droplets_Get 11])"
    by code_simp
  then show ?thesis
    using NodeAddresses_ignores_name
      [of example_http "newInstances example_client" "''node-bare''" "[]" "''node-a''"]
    by simp
qed

subsection \<open>C3: an id that does not parse reaches no collaborator\<close>

text \<open>
  C3. For every provider id that \<^verbatim>\<open>strconv.Atoi\<close> rejects (\<open>abc\<close> is one),
  \<^verbatim>\<open>NodeAddressesByProviderID\<close> fails, as \<^verbatim>\<open>dropletById\<close> does, with the error
  \<^verbatim>\<open>"error converting droplet id to string: ..."\<close> (the spec's \<open>InvalidID\<close>) that carries
  the parse error, and no call is made: the list of calls is the one given, with no
  \<^verbatim>\<open>Droplets.Get\<close> and no HTTP request added.
\<close>

theorem NodeAddressesByProviderID_invalid_id:
  assumes "Atoi providerId = Inl e"
  shows "NodeAddressesByProviderID i providerId cs = (Inl (ErrConvertingDropletId e), cs) \<and>
         dropletById i providerId cs = (Inl (ErrConvertingDropletId e), cs)"
proof -
  have lookup: "dropletById i providerId cs = (Inl (ErrConvertingDropletId e), cs)"
    using assms by (rule dropletById_unparsed)
  from lookup have "NodeAddressesByProviderID i providerId cs = (Inl (ErrConvertingDropletId e), cs)"
    by (rule NodeAddressesByProviderID_error)
  with lookup show ?thesis by simp
qed

theorem NodeAddressesByProviderID_invalid_id_witness:
  "Atoi ''abc'' = Inl (NumError ''abc'' ErrSyntax) \<and>
   NodeAddressesByProviderID (newInstances example_client) ''abc'' [] =
     (Inl (ErrConvertingDropletId (NumError ''abc'' ErrSyntax)), []) \<and>
   dropletById (newInstances example_client) ''abc'' [] =
     (Inl (ErrConvertingDropletId (NumError ''abc'' ErrSyntax)), [])"
  using Atoi_abc
    NodeAddressesByProviderID_invalid_id [OF Atoi_abc, of "newInstances example_client" "[]"]
  by simp

subsection \<open>C2: the three addresses, in order\<close>

text \<open>
  C2. For every droplet record that the lookup by provider id returns and whose private
  and public IPv4 addresses are both non-empty, \<^verbatim>\<open>NodeAddressesByProviderID\<close> returns
  exactly three addresses in this order: the host name (the record's name), the internal
  IP (the private IPv4), the external IP (the public IPv4).
\<close>

theorem NodeAddressesByProviderID_three_addresses:
  assumes "fst (dropletById i providerId cs) = Inr (Some droplet)"
    and "fst (PrivateIPv4 droplet) \<noteq> []"
    and "fst (PublicIPv4 droplet) \<noteq> []"
  shows "fst (NodeAddressesByProviderID i providerId cs) =
           Inr [NodeAddress NodeHostName (Name droplet),
                NodeAddress NodeInternalIP (fst (PrivateIPv4 droplet)),
                NodeAddress NodeExternalIP (fst (PublicIPv4 droplet))]"
proof -
  obtain cs' where "dropletById i providerId cs = (Inr (Some droplet), cs')"
    using assms(1) by (cases "dropletById i providerId cs") simp
  then show ?thesis
    using assms(2,3) PrivateIPv4_nonempty [of droplet] PublicIPv4_nonempty [of droplet]
    by (simp add: NodeAddressesByProviderID_record)
qed

theorem NodeAddressesByProviderID_three_addresses_witness:
  "fst (dropletById (newInstances example_client) ''11'' []) = Inr (Some node_a) \<and>
   fst (NodeAddressesByProviderID (newInstances example_client) ''11'' []) =
     Inr [NodeAddress NodeHostName ''node-a'',
          NodeAddress NodeInternalIP ''10.0.0.5'',
          NodeAddress NodeExternalIP ''203.0.113.9'']"
proof -
  have priv: "fst (PrivateIPv4 node_a) \<noteq> []" and pub: "fst (PublicIPv4 node_a) \<noteq> []"
    by (simp_all add: node_a_addresses)
  have "Name node_a = ''node-a''"
    by (simp add: node_a_def)
  then show ?thesis
    using example_get_11
      NodeAddressesByProviderID_three_addresses [OF example_get_11 priv pub]
    by (simp add: node_a_addresses)
qed

subsection \<open>C6: no public address, no result\<close>

text \<open>
  C6. For every droplet record that the lookup by provider id returns and whose public
  IPv4 address is absent or empty, \<^verbatim>\<open>NodeAddressesByProviderID\<close> fails with one of the
  two errors \<^verbatim>\<open>"could not get private ip: ..."\<close> and \<^verbatim>\<open>"could not get public ip: ..."\<close>
  (both the spec's \<open>MissingAddress\<close>), whether the private address is there or not. And
  whenever \<^verbatim>\<open>NodeAddressesByProviderID\<close> returns addresses at all, they are three, of the
  kinds host name, internal IP and external IP in this order: no shorter list is returned.
\<close>

theorem NodeAddressesByProviderID_all_or_nothing:
  "(fst (dropletById i providerId cs) = Inr (Some droplet) \<and> fst (PublicIPv4 droplet) = [] \<longrightarrow>
      (\<exists>err. fst (NodeAddressesByProviderID i providerId cs) = Inl (ErrPrivateIP err) \<or>
             fst (NodeAddressesByProviderID i providerId cs) = Inl (ErrPublicIP err))) \<and>
   (fst (NodeAddressesByProviderID i providerId cs) = Inr addresses \<longrightarrow>
      map AddressType addresses = [NodeHostName, NodeInternalIP, NodeExternalIP])"
proof (intro conjI impI)
  assume "fst (dropletById i providerId cs) = Inr (Some droplet) \<and> fst (PublicIPv4 droplet) = []"
  then obtain cs' where "dropletById i providerId cs = (Inr (Some droplet), cs')"
    and "fst (PublicIPv4 droplet) = []"
    by (cases "dropletById i providerId cs") simp
  then show "\<exists>err. fst (NodeAddressesByProviderID i providerId cs) = Inl (ErrPrivateIP err) \<or>
             fst (NodeAddressesByProviderID i providerId cs) = Inl (ErrPublicIP err)"
    by (simp add: NodeAddressesByProviderID_record)
next
  assume returned: "fst (NodeAddressesByProviderID i providerId cs) = Inr addresses"
  show "map AddressType addresses = [NodeHostName, NodeInternalIP, NodeExternalIP]"
  proof (cases i providerId cs rule: dropletById_cases)
    case (failed e cs')
    with returned show ?thesis by (simp add: NodeAddressesByProviderID_error)
  next
    case (nil_pointer cs')
    with returned show ?thesis by (simp add: NodeAddressesByProviderID_nil)
  next
    case (found d cs')
    with returned show ?thesis
      by (auto simp add: NodeAddressesByProviderID_record split: if_splits)
  qed
qed

theorem NodeAddressesByProviderID_all_or_nothing_witness:
  "fst (dropletById (newInstances example_client) ''14'' []) = Inr (Some node_private_only) \<and>
   fst (PublicIPv4 node_private_only) = [] \<and>
   fst (PrivateIPv4 node_private_only) = ''10.0.0.7'' \<and>
   (\<exists>err. fst (NodeAddressesByProviderID (newInstances example_client) ''14'' []) =
             Inl (ErrPrivateIP err) \<or>
          fst (NodeAddressesByProviderID (newInstances example_client) ''14'' []) =
             Inl (ErrPublicIP err)) \<and>
   fst (NodeAddressesByProviderID (newInstances example_client) ''11'' []) =
     Inr [NodeAddress NodeHostName ''node-a'',
          NodeAddress NodeInternalIP ''10.0.0.5'',
          NodeAddress NodeExternalIP ''203.0.113.9''] \<and>
   map AddressType
     [NodeAddress NodeHostName ''node-a'',
      NodeAddress NodeInternalIP ''10.0.0.5'',
      NodeAddress NodeExternalIP ''203.0.113.9''] =
     [NodeHostName, NodeInternalIP, NodeExternalIP]"
proof -
  have no_public: "fst (PublicIPv4 node_private_only) = []"
    and has_private: "fst (PrivateIPv4 node_private_only) = ''10.0.0.7''"
    by (simp_all add: node_private_only_addresses)
  have fails: "\<exists>err. fst (NodeAddressesByProviderID (newInstances example_client) ''14'' []) =
             Inl (ErrPrivateIP err) \<or>
          fst (NodeAddressesByProviderID (newInstances example_client) ''14'' []) =
             Inl (ErrPublicIP err)"
    using example_get_14 no_public
      NodeAddressesByProviderID_all_or_nothing
        [of "newInstances example_client" "''14''" "[]" node_private_only]
    by simp
  have full: "fst (NodeAddressesByProviderID (newInstances example_client) ''11'' []) =
     Inr [NodeAddress NodeHostName ''node-a'',
          NodeAddress NodeInternalIP ''10.0.0.5'',
          NodeAddress NodeExternalIP ''203.0.113.9'']"
    by code_simp
  have "map AddressType
     [NodeAddress NodeHostName ''node-a'',
      NodeAddress NodeInternalIP ''10.0.0.5'',
      NodeAddress NodeExternalIP ''203.0.113.9''] =
     [NodeHostName, NodeInternalIP, NodeExternalIP]"
    using full
      NodeAddressesByProviderID_all_or_nothing
        [of "newInstances example_client" "''11''" "[]" node_a
          "[NodeAddress NodeHostName ''node-a'',
            NodeAddress NodeInternalIP ''10.0.0.5'',
            NodeAddress NodeExternalIP ''203.0.113.9'']"]
    by simp
  with example_get_14 no_public has_private fails full show ?thesis
    by simp
qed

subsection \<open>C4: the first droplet of the name\<close>

text \<open>
  C4. Whenever the client's list call succeeds (no error, status 200) with a list of
  records, \<^verbatim>\<open>InstanceID\<close> returns the decimal numeral of the id of the first record, in
  list order, whose name is equal to the node name it was asked for, byte for byte (so a
  name that differs in case is no match); and it fails with
  \<^verbatim>\<open>cloudprovider.InstanceNotFound\<close> when no record of the list has that name.
\<close>

theorem InstanceID_first_match:
  assumes "Droplets_List (client i) \<lparr>Page = 0, PerPage = 0\<rparr> = (droplets, Some resp, None)"
    and "StatusCode resp = 200"
  shows "(droplets = before @ droplet # rest \<and> Name droplet = nodeName \<and>
            (\<forall>d \<in> set before. Name d \<noteq> nodeName) \<longrightarrow>
          fst (InstanceID i nodeName cs) = Inr (Itoa (ID droplet))) \<and>
         ((\<forall>d \<in> set droplets. Name d \<noteq> nodeName) \<longrightarrow>
          fst (InstanceID i nodeName cs) = Inl InstanceNotFound)"
proof -
  have lookup: "dropletByName i nodeName cs =
      (scanByName nodeName droplets, cs @ [Call_Droplets_List \<lparr>Page = 0, PerPage = 0\<rparr>])"
    using assms by (rule dropletByName_listed)
  show ?thesis
  proof (intro conjI impI)
    assume "droplets = before @ droplet # rest \<and> Name droplet = nodeName \<and>
            (\<forall>d \<in> set before. Name d \<noteq> nodeName)"
    then have "scanByName nodeName droplets = Inr droplet"
      by (simp add: scanByName_first)
    with lookup show "fst (InstanceID i nodeName cs) = Inr (Itoa (ID droplet))"
      by (simp add: InstanceID_def)
  next
    assume "\<forall>d \<in> set droplets. Name d \<noteq> nodeName"
    then have "scanByName nodeName droplets = Inl InstanceNotFound"
      by (rule scanByName_none)
    with lookup show "fst (InstanceID i nodeName cs) = Inl InstanceNotFound"
      by (simp add: InstanceID_def)
  qed
qed

theorem InstanceID_first_match_witness:
  "Droplets_List (client (newInstances example_client)) \<lparr>Page = 0, PerPage = 0\<rparr> =
     ([node_A_upper] @ node_a # [node_a_again, node_bare, node_private_only], Some ok_response, None) \<and>
   Name node_A_upper = ''Node-A'' \<and> Name node_a = ''node-a'' \<and> Name node_a_again = ''node-a'' \<and>
   fst (InstanceID (newInstances example_client) ''node-a'' []) = Inr ''11'' \<and>
   fst (InstanceID (newInstances example_client) ''NODE-A'' []) = Inl InstanceNotFound"
proof -
  have names: "Name node_A_upper = ''Node-A''" "Name node_a = ''node-a''"
    "Name node_a_again = ''node-a''" "Name node_bare = ''node-bare''"
    "Name node_private_only = ''node-private''"
    by (simp_all add: node_A_upper_def node_a_def node_a_again_def node_bare_def
        node_private_only_def)
  have eleven: "Itoa (ID node_a) = ''11''"
    by code_simp
  have "fst (InstanceID (newInstances example_client) ''node-a'' []) = Inr (Itoa (ID node_a))"
    using names
      InstanceID_first_match [OF example_list ok_response_status,
        of "[node_A_upper]" node_a "[node_a_again, node_bare, node_private_only]" "''node-a''" "[]"]
    by simp
  moreover have "fst (InstanceID (newInstances example_client) ''NODE-A'' []) = Inl InstanceNotFound"
    using names
      InstanceID_first_match [OF example_list ok_response_status,
        of "[]" node_a "[]" "''NODE-A''" "[]"]
    by simp
  ultimately show ?thesis
    using names eleven example_list by simp
qed

subsection \<open>C10: an empty list\<close>

text \<open>
  C10. When the client's list call succeeds (no error, status 200) with no record at all,
  \<^verbatim>\<open>InstanceID\<close>, \<^verbatim>\<open>ExternalID\<close> and \<^verbatim>\<open>InstanceType\<close> fail with
  \<^verbatim>\<open>cloudprovider.InstanceNotFound\<close>, for every node name.
\<close>

theorem empty_list_InstanceNotFound:
  assumes "Droplets_List (client i) \<lparr>Page = 0, PerPage = 0\<rparr> = ([], Some resp, None)"
    and "StatusCode resp = 200"
  shows "fst (InstanceID i nodeName cs) = Inl InstanceNotFound \<and>
         fst (ExternalID i nodeName cs) = Inl InstanceNotFound \<and>
         fst (InstanceType i nodeName cs) = Inl InstanceNotFound"
proof -
  have "dropletByName i nodeName cs =
      (scanByName nodeName [], cs @ [Call_Droplets_List \<lparr>Page = 0, PerPage = 0\<rparr>])"
    using assms by (rule dropletByName_listed)
  then show ?thesis
    by (simp add: InstanceID_def ExternalID_def InstanceType_def)
qed

theorem empty_list_InstanceNotFound_witness:
  "Droplets_List (client (newInstances empty_client)) \<lparr>Page = 0, PerPage = 0\<rparr> =
     ([], Some ok_response, None) \<and>
   StatusCode ok_response = 200 \<and>
   fst (InstanceID (newInstances empty_client) ''node-a'' []) = Inl InstanceNotFound \<and>
   fst (ExternalID (newInstances empty_client) ''node-a'' []) = Inl InstanceNotFound \<and>
   fst (InstanceType (newInstances empty_client) ''node-a'' []) = Inl InstanceNotFound"
  using empty_list ok_response_status
    empty_list_InstanceNotFound [OF empty_list ok_response_status, of "''node-a''" "[]"]
  by simp

subsection \<open>C1: where the addresses are checked\<close>

text \<open>
  C1 says that both lookups, by name and by id, return only records with a non-empty
  private and a non-empty public IPv4 address, and fail otherwise. The lookups do not
  look at the addresses: a record with no networks is returned by \<^verbatim>\<open>dropletByName\<close> and
  by \<^verbatim>\<open>dropletById\<close>, and \<^verbatim>\<open>InstanceID\<close>, \<^verbatim>\<open>ExternalID\<close>, \<^verbatim>\<open>InstanceType\<close> and
  \<^verbatim>\<open>InstanceTypeByProviderID\<close> succeed on it.
\<close>

theorem lookups_ignore_addresses_counterexample:
  "fst (dropletByName (newInstances example_client) ''node-bare'' []) = Inr node_bare \<and>
   fst (dropletById (newInstances example_client) ''13'' []) = Inr (Some node_bare) \<and>
   fst (InstanceID (newInstances example_client) ''node-bare'' []) = Inr ''13'' \<and>
   fst (ExternalID (newInstances example_client) ''node-bare'' []) = Inr ''13'' \<and>
   fst (InstanceType (newInstances example_client) ''node-bare'' []) = Inr ''512mb'' \<and>
   fst (InstanceTypeByProviderID (newInstances example_client) ''13'' []) = Inr ''512mb'' \<and>
   fst (PrivateIPv4 node_bare) = [] \<and>
   fst (PublicIPv4 node_bare) = []"
proof -
  have "fst (dropletByName (newInstances example_client) ''node-bare'' []) = Inr node_bare"
    by code_simp
  moreover have "fst (InstanceID (newInstances example_client) ''node-bare'' []) = Inr ''13''"
    by code_simp
  moreover have "fst (ExternalID (newInstances example_client) ''node-bare'' []) = Inr ''13''"
    by code_simp
  moreover have "fst (InstanceType (newInstances example_client) ''node-bare'' []) = Inr ''512mb''"
    by code_simp
  moreover have "fst (InstanceTypeByProviderID (newInstances example_client) ''13'' []) = Inr ''512mb''"
    by code_simp
  ultimately show ?thesis
    using example_get_13 by (simp add: node_bare_addresses)
qed

text \<open>
  C1, amended. The addresses are checked by the address resolution, not by the lookups.
  \<^item> \<^verbatim>\<open>NodeAddressesByProviderID\<close> succeeds exactly when the lookup by id returned a
    record whose private IPv4 and public IPv4 are both non-empty; a record without one of
    them makes it fail.
  \<^item> \<^verbatim>\<open>NodeAddresses\<close> succeeds exactly when the metadata endpoint gave an id and the
    lookup by that id returned such a record.
  \<^item> The lookup by id does not check addresses: for an id that parses, whenever the
    client's \<^verbatim>\<open>Get\<close> succeeds (no error, status 200) with a record, whatever its
    addresses, \<^verbatim>\<open>dropletById\<close> returns that record and \<^verbatim>\<open>InstanceTypeByProviderID\<close> its
    size.
  \<^item> The lookup by name does not check addresses: whenever the client's \<^verbatim>\<open>List\<close>
    succeeds (no error, status 200), \<^verbatim>\<open>dropletByName\<close> returns the first record of the
    name, whatever its addresses, \<^verbatim>\<open>InstanceID\<close> and \<^verbatim>\<open>ExternalID\<close> the decimal
    numeral of its id, and \<^verbatim>\<open>InstanceType\<close> its size.
\<close>

theorem addresses_checked_by_resolution_only:
  "((\<exists>addresses. fst (NodeAddressesByProviderID i providerId cs) = Inr addresses) \<longleftrightarrow>
      (\<exists>droplet. fst (dropletById i providerId cs) = Inr (Some droplet) \<and>
         fst (PrivateIPv4 droplet) \<noteq> [] \<and> fst (PublicIPv4 droplet) \<noteq> [])) \<and>
   ((\<exists>addresses. fst (NodeAddresses net i name cs) = Inr addresses) \<longleftrightarrow>
      (\<exists>selfDropletID cs' droplet.
         dropletID net cs = (Inr selfDropletID, cs') \<and>
         fst (dropletById i selfDropletID cs') = Inr (Some droplet) \<and>
         fst (PrivateIPv4 droplet) \<noteq> [] \<and> fst (PublicIPv4 droplet) \<noteq> [])) \<and>
   (Atoi providerId = Inr intId \<and>
    Droplets_Get (client i) intId = (Some got, Some resp, None) \<and> StatusCode resp = 200 \<longrightarrow>
      fst (dropletById i providerId cs) = Inr (Some got) \<and>
      fst (InstanceTypeByProviderID i providerId cs) = Inr (SizeSlug got)) \<and>
   (Droplets_List (client i) \<lparr>Page = 0, PerPage = 0\<rparr> = (before @ listed # rest, Some resp', None) \<and>
    StatusCode resp' = 200 \<and> Name listed = nodeName \<and>
    (\<forall>d \<in> set before. Name d \<noteq> nodeName) \<longrightarrow>
      fst (dropletByName i nodeName cs) = Inr listed \<and>
      fst (InstanceID i nodeName cs) = Inr (Itoa (ID listed)) \<and>
      fst (ExternalID i nodeName cs) = Inr (Itoa (ID listed)) \<and>
      fst (InstanceType i nodeName cs) = Inr (SizeSlug listed))"
proof (intro conjI impI)
  show "(\<exists>addresses. fst (NodeAddressesByProviderID i providerId cs) = Inr addresses) \<longleftrightarrow>
      (\<exists>droplet. fst (dropletById i providerId cs) = Inr (Some droplet) \<and>
         fst (PrivateIPv4 droplet) \<noteq> [] \<and> fst (PublicIPv4 droplet) \<noteq> [])"
    by (rule NodeAddressesByProviderID_succeeds_iff)
next
  show "(\<exists>addresses. fst (NodeAddresses net i name cs) = Inr addresses) \<longleftrightarrow>
      (\<exists>selfDropletID cs' droplet.
         dropletID net cs = (Inr selfDropletID, cs') \<and>
         fst (dropletById i selfDropletID cs') = Inr (Some droplet) \<and>
         fst (PrivateIPv4 droplet) \<noteq> [] \<and> fst (PublicIPv4 droplet) \<noteq> [])"
    by (rule NodeAddresses_succeeds_iff)
next
  assume got: "Atoi providerId = Inr intId \<and>
    Droplets_Get (client i) intId = (Some got, Some resp, None) \<and> StatusCode resp = 200"
  then have lookup: "dropletById i providerId cs = (Inr (Some got), cs @ [Call_Droplets_Get intId])"
    by (simp add: dropletById_got)
  from lookup show "fst (dropletById i providerId cs) = Inr (Some got)"
    by simp
  from lookup show "fst (InstanceTypeByProviderID i providerId cs) = Inr (SizeSlug got)"
    by (simp add: InstanceTypeByProviderID_def)
next
  assume listed: "Droplets_List (client i) \<lparr>Page = 0, PerPage = 0\<rparr> =
      (before @ listed # rest, Some resp', None) \<and>
    StatusCode resp' = 200 \<and> Name listed = nodeName \<and>
    (\<forall>d \<in> set before. Name d \<noteq> nodeName)"
  then have lookup: "dropletByName i nodeName cs =
      (Inr listed, cs @ [Call_Droplets_List \<lparr>Page = 0, PerPage = 0\<rparr>])"
    by (simp add: dropletByName_first)
  from lookup show "fst (dropletByName i nodeName cs) = Inr listed"
    by simp
  from lookup show "fst (InstanceID i nodeName cs) = Inr (Itoa (ID listed))"
    by (simp add: InstanceID_def)
  from lookup show "fst (ExternalID i nodeName cs) = Inr (Itoa (ID listed))"
    by (simp add: ExternalID_def InstanceID_def)
  from lookup show "fst (InstanceType i nodeName cs) = Inr (SizeSlug listed)"
    by (simp add: InstanceType_def)
qed

theorem addresses_checked_by_resolution_only_witness:
  "(\<exists>addresses. fst (NodeAddressesByProviderID (newInstances example_client) ''11'' []) = Inr addresses) \<and>
   \<not> (\<exists>addresses. fst (NodeAddressesByProviderID (newInstances example_client) ''13'' []) = Inr addresses) \<and>
   (\<exists>addresses. fst (NodeAddresses example_http (newInstances example_client) ''node-a'' []) = Inr addresses) \<and>
   \<not> (\<exists>addresses. fst (NodeAddresses bare_http (newInstances example_client) ''node-bare'' []) = Inr addresses) \<and>
   fst (PrivateIPv4 node_bare) = [] \<and> fst (PublicIPv4 node_bare) = [] \<and>
   fst (dropletById (newInstances example_client) ''13'' []) = Inr (Some node_bare) \<and>
   fst (InstanceTypeByProviderID (newInstances example_client) ''13'' []) = Inr ''512mb'' \<and>
   fst (dropletByName (newInstances example_client) ''node-bare'' []) = Inr node_bare \<and>
   fst (InstanceID (newInstances example_client) ''node-bare'' []) = Inr ''13'' \<and>
   fst (ExternalID (newInstances example_client) ''node-bare'' []) = Inr ''13'' \<and>
   fst (InstanceType (newInstances example_client) ''node-bare'' []) = Inr ''512mb''"
proof -
  let ?I = "newInstances example_client"
  have names: "Name node_A_upper = ''Node-A''" "Name node_a = ''node-a''"
    "Name node_a_again = ''node-a''" "Name node_bare = ''node-bare''"
    by (simp_all add: node_A_upper_def node_a_def node_a_again_def node_bare_def)
  have fields: "Itoa (ID node_bare) = ''13''" "SizeSlug node_bare = ''512mb''"
    by code_simp+
  have get_11: "fst (dropletById ?I ''11'' [Call_http_Get dropletIDMetadataURL]) = Inr (Some node_a)"
    by code_simp
  have get_13: "fst (dropletById ?I ''13'' [Call_http_Get dropletIDMetadataURL]) = Inr (Some node_bare)"
    by code_simp
  note at_11 = addresses_checked_by_resolution_only
    [of ?I "''11''" "[]" example_http "''node-a''" 13 node_bare ok_response
      "[node_A_upper, node_a, node_a_again]" node_bare "[node_private_only]" ok_response
      "''node-bare''"]
  note at_13 = addresses_checked_by_resolution_only
    [of ?I "''13''" "[]" bare_http "''node-bare''" 13 node_bare ok_response
      "[node_A_upper, node_a, node_a_again]" node_bare "[node_private_only]" ok_response
      "''node-bare''"]
  have by_id_11: "\<exists>addresses. fst (NodeAddressesByProviderID ?I ''11'' []) = Inr addresses"
    using at_11 example_get_11 by (simp add: node_a_addresses)
  have self_11: "\<exists>addresses. fst (NodeAddresses example_http ?I ''node-a'' []) = Inr addresses"
    using at_11 get_11 by (simp add: example_metadata node_a_addresses)
  have by_id_13: "\<not> (\<exists>addresses. fst (NodeAddressesByProviderID ?I ''13'' []) = Inr addresses)"
    using at_13 example_get_13 by (simp add: node_bare_addresses)
  have self_13: "\<not> (\<exists>addresses. fst (NodeAddresses bare_http ?I ''node-bare'' []) = Inr addresses)"
    using at_13 get_13 by (simp add: example_metadata node_bare_addresses)
  have lookups:
    "fst (dropletById ?I ''13'' []) = Inr (Some node_bare)"
    "fst (InstanceTypeByProviderID ?I ''13'' []) = Inr ''512mb''"
    "fst (dropletByName ?I ''node-bare'' []) = Inr node_bare"
    "fst (InstanceID ?I ''node-bare'' []) = Inr ''13''"
    "fst (ExternalID ?I ''node-bare'' []) = Inr ''13''"
    "fst (InstanceType ?I ''node-bare'' []) = Inr ''512mb''"
    using at_13 Atoi_13 example_get_answer_13 example_list_split ok_response_status names fields
    by simp_all
  from by_id_11 by_id_13 self_11 self_13 lookups show ?thesis
    by (simp add: node_bare_addresses)
qed

end
